theory Spec2Isabelle
  imports Main
begin

section \<open>Strings of the host language\<close>

text \<open>
  Strings are lists of characters. The codes below 128 are the ASCII characters; text
  beyond ASCII is carried by codes from 128 on only, as in UTF-8, so that the hyphen and
  every other ASCII character of a string is a character of the list and nothing else is.
  Three operations of the JavaScript string library are used by \<^verbatim>\<open>src/App.tsx\<close>:
  \<^verbatim>\<open>includes\<close>, \<^verbatim>\<open>split\<close> with a one-character separator and \<^verbatim>\<open>toUpperCase\<close>.
\<close>

fun startsWith :: "string \<Rightarrow> string \<Rightarrow> bool" where
  "startsWith s [] = True"
| "startsWith [] (p # ps) = False"
| "startsWith (c # cs) (p # ps) = (c = p \<and> startsWith cs ps)"

text \<open>\<^verbatim>\<open>s.includes(sub)\<close>: the search string occurs at some position of \<open>s\<close>.\<close>

fun includes_str :: "string \<Rightarrow> string \<Rightarrow> bool" where
  "includes_str [] sub = startsWith [] sub"
| "includes_str (c # cs) sub = (startsWith (c # cs) sub \<or> includes_str cs sub)"

text \<open>
  \<^verbatim>\<open>s.split(sep)\<close> with a one-character separator: the maximal pieces between the
  occurrences of the separator, in order. A string without the separator gives the
  one-element list holding the string itself (so the empty string gives a list holding
  the empty string).
\<close>

fun split_str :: "char \<Rightarrow> string \<Rightarrow> string list" where
  "split_str sep [] = [[]]"
| "split_str sep (c # cs) =
     (if c = sep then [] # split_str sep cs
      else (case split_str sep cs of [] \<Rightarrow> [[c]] | w # ws \<Rightarrow> (c # w) # ws))"

text \<open>
  \<^verbatim>\<open>toUpperCase\<close> follows the case tables of Unicode, which are not part of the
  repository: an accented letter becomes its capital, the sharp s becomes \<^verbatim>\<open>SS\<close>. On a
  string of ASCII characters only, the tables move \<open>a\<close> to \<open>z\<close> (codes 97 to 122)
  down by 32 and leave every other character; that part is computed here. On any other
  string the result is what the tables give: it is the parameter \<open>unicode_upper\<close>, and
  every statement below holds for each value of it.
\<close>

definition is_ascii :: "string \<Rightarrow> bool" where
  "is_ascii s = list_all (\<lambda>c. (of_char c :: nat) < 128) s"

definition ascii_upper_char :: "char \<Rightarrow> char" where
  "ascii_upper_char c =
     (let n = (of_char c :: nat) in if 97 \<le> n \<and> n \<le> 122 then char_of (n - 32) else c)"

definition toUpperCase :: "(string \<Rightarrow> string) \<Rightarrow> string \<Rightarrow> string" where
  "toUpperCase unicode_upper s =
     (if is_ascii s then map ascii_upper_char s else unicode_upper s)"

text \<open>
  An array read \<^verbatim>\<open>xs[i]\<close>: past the end JavaScript gives \<^verbatim>\<open>undefined\<close>, which is
  \<open>None\<close> here.
\<close>

definition index :: "'a list \<Rightarrow> nat \<Rightarrow> 'a option" where
  "index xs i = (if i < length xs then Some (xs ! i) else None)"

section \<open>Values and faults of the host language\<close>

text \<open>
  The only fault the component can raise by itself is the \<^verbatim>\<open>TypeError\<close> of a property
  read or a method call on \<^verbatim>\<open>undefined\<close> or \<^verbatim>\<open>null\<close>.
\<close>

datatype js_error = TypeError

text \<open>
  The value \<^verbatim>\<open>res.json()\<close> resolves to. The bodies of the logs and service endpoints are
  untyped in the source (\<^verbatim>\<open>any\<close>), so they are modelled as parsed JSON values. An object
  is the list of its members; a parsed object holds each name once. Numbers are integers
  here: the code only tests them for being zero.
\<close>

datatype json =
    JNull
  | JBool bool
  | JNum int
  | JStr string
  | JArr "json list"
  | JObj "(string \<times> json) list"

text \<open>Truthiness, as \<^verbatim>\<open>||\<close> and \<^verbatim>\<open>&&\<close> test it.\<close>

fun truthy :: "json \<Rightarrow> bool" where
  "truthy JNull = False"
| "truthy (JBool b) = b"
| "truthy (JNum n) = (n \<noteq> 0)"
| "truthy (JStr s) = (s \<noteq> [])"
| "truthy (JArr xs) = True"
| "truthy (JObj kvs) = True"

text \<open>
  \<^verbatim>\<open>data.output\<close>: a read on \<^verbatim>\<open>null\<close> throws, a read on an object looks the member
  up, a read on any other value (a boolean, a number, a string, an array) finds no such
  property and gives \<^verbatim>\<open>undefined\<close> (\<open>None\<close>).
\<close>

fun output_of :: "json \<Rightarrow> js_error + json option" where
  "output_of JNull = Inl TypeError"
| "output_of (JObj kvs) = Inr (map_of kvs ''output'')"
| "output_of (JBool b) = Inr None"
| "output_of (JNum n) = Inr None"
| "output_of (JStr s) = Inr None"
| "output_of (JArr xs) = Inr None"

text \<open>\<^verbatim>\<open>v || ''\<close> for a value that may be \<^verbatim>\<open>undefined\<close>.\<close>

definition or_empty :: "json option \<Rightarrow> json" where
  "or_empty v = (case v of None \<Rightarrow> JStr [] | Some x \<Rightarrow> if truthy x then x else JStr [])"

section \<open>Data model\<close>

record Session =
  key :: string
  message_count :: int
  updated :: int
  created :: int

text \<open>
  The fields \<^verbatim>\<open>id\<close>, \<^verbatim>\<open>status\<close> and \<^verbatim>\<open>created\<close> of a subagent carry a prefix, since
  field names are global here.
\<close>

record Subagent =
  subagent_id :: string
  task :: string
  label :: string
  subagent_status :: string
  subagent_created :: int

record SystemStatus =
  model :: string
  ready :: bool
  sessions :: "Session list"
  subagents :: "Subagent list"
  uptime :: string
  workspace :: string

text \<open>
  The five \<^verbatim>\<open>useState\<close> cells of \<^verbatim>\<open>App\<close>. The status is held at its declared type
  \<^verbatim>\<open>SystemStatus | null\<close>. The logs and service cells hold whatever
  \<^verbatim>\<open>data.output || ''\<close> evaluates to.
\<close>

record ViewState =
  status :: "SystemStatus option"
  logs :: json
  service :: json
  loading :: bool
  error :: "string option"

definition initial :: ViewState where
  "initial = \<lparr>status = None, logs = JStr [], service = JStr [], loading = True, error = None\<rparr>"

section \<open>Endpoint resolver\<close>

text \<open>
  \<^verbatim>\<open>
  const getApiBase = () => {
    const isDev = window.location.hostname.includes('operator.onl');
    return isDev ? 'https://weaver.operator.onl' : 'https://weaver.onl';
  };
  \<close>
  The host name is read from the browser; here it is the argument.
\<close>

definition getApiBase :: "string \<Rightarrow> string" where
  "getApiBase hostname =
     (let isDev = includes_str hostname ''operator.onl''
      in if isDev then ''https://weaver.operator.onl'' else ''https://weaver.onl'')"


section \<open>Fetches\<close>

text \<open>
  What one \<^verbatim>\<open>fetch\<close> call comes to. The promise is rejected with an error (its message
  is kept), or resolves to a response with its \<^verbatim>\<open>ok\<close> flag and with what
  \<^verbatim>\<open>res.json()\<close> comes to: \<open>Inl\<close> the message of the parse error, or \<open>Inr\<close> the parsed
  body.
\<close>

datatype 'a response = Response (ok: bool) (json_body: "string + 'a")

datatype 'a fetched = Rejected string | Resolved "'a response"

text \<open>
  \<^verbatim>\<open>
  const fetchStatus = async () => {
    try {
      const res = await fetch(`${getApiBase()}/admin/status`);
      if (!res.ok) throw new Error('Failed to fetch status');
      const data = await res.json();
      setStatus(data);
      setError(null);
    } catch (err: any) {
      setError(err.message);
    } finally {
      setLoading(false);
    }
  };
  \<close>
  \<open>fetchStatus_try\<close> is the \<^verbatim>\<open>try\<close> block: \<open>Inl\<close> the message of what it throws, or
  \<open>Inr\<close> the state it leaves.
\<close>

definition fetchStatus_try :: "SystemStatus fetched \<Rightarrow> ViewState \<Rightarrow> string + ViewState" where
  "fetchStatus_try r vs =
     (case r of
        Rejected message \<Rightarrow> Inl message
      | Resolved res \<Rightarrow>
          if \<not> ok res then Inl ''Failed to fetch status''
          else (case json_body res of
                  Inl message \<Rightarrow> Inl message
                | Inr data \<Rightarrow> Inr (vs\<lparr>status := Some data, error := None\<rparr>)))"

definition fetchStatus :: "SystemStatus fetched \<Rightarrow> ViewState \<Rightarrow> ViewState" where
  "fetchStatus r vs =
     (let vs' = (case fetchStatus_try r vs of
                   Inl message \<Rightarrow> vs\<lparr>error := Some message\<rparr>
                 | Inr applied \<Rightarrow> applied)
      in vs'\<lparr>loading := False\<rparr>)"

text \<open>
  \<^verbatim>\<open>
  const fetchLogs = async () => {
    try {
      const res = await fetch(`${getApiBase()}/admin/logs`);
      const data = await res.json();
      setLogs(data.output || '');
    } catch (err) {}
  };
  \<close>
  The \<^verbatim>\<open>try\<close> block gives \<open>None\<close> when it throws (the rejected fetch, the parse error, the
  read on \<^verbatim>\<open>null\<close>) and the value handed to the setter otherwise. The \<^verbatim>\<open>ok\<close> flag is not
  read.
\<close>

definition fetchOutput_try :: "json fetched \<Rightarrow> json option" where
  "fetchOutput_try r =
     (case r of
        Rejected message \<Rightarrow> None
      | Resolved res \<Rightarrow>
          (case json_body res of
             Inl message \<Rightarrow> None
           | Inr data \<Rightarrow>
               (case output_of data of
                  Inl err \<Rightarrow> None
                | Inr v \<Rightarrow> Some (or_empty v))))"

definition fetchLogs :: "json fetched \<Rightarrow> ViewState \<Rightarrow> ViewState" where
  "fetchLogs r vs =
     (case fetchOutput_try r of None \<Rightarrow> vs | Some v \<Rightarrow> vs\<lparr>logs := v\<rparr>)"

text \<open>\<^verbatim>\<open>fetchService\<close> is the same function on \<^verbatim>\<open>/admin/service\<close> and \<^verbatim>\<open>setService\<close>.\<close>

definition fetchService :: "json fetched \<Rightarrow> ViewState \<Rightarrow> ViewState" where
  "fetchService r vs =
     (case fetchOutput_try r of None \<Rightarrow> vs | Some v \<Rightarrow> vs\<lparr>service := v\<rparr>)"

section \<open>Renderer\<close>

text \<open>
  The element tree \<^verbatim>\<open>App\<close> returns, reduced to what it shows: texts, numbers, list rows
  with their React keys, and which optional elements are present. Class names, icons and
  colours are left out. A time stamp shown through \<^verbatim>\<open>toLocaleTimeString\<close> is kept as the
  number it is computed from.
\<close>

datatype stat_value = NumValue nat | StrValue string

record stat_card =
  card_label :: string
  card_value :: stat_value
  card_sub :: "string option"

text \<open>
  \<^verbatim>\<open>StatCard({ label, value, subValue })\<close> shows the label, the value and, behind
  \<^verbatim>\<open>subValue &&\<close>, the sub-value: an absent or empty sub-value shows nothing.
\<close>

definition StatCard :: "string \<Rightarrow> stat_value \<Rightarrow> string option \<Rightarrow> stat_card" where
  "StatCard lbl v subValue =
     \<lparr>card_label = lbl, card_value = v,
      card_sub = (case subValue of None \<Rightarrow> None | Some s \<Rightarrow> if s = [] then None else Some s)\<rparr>"

record session_row =
  row_key :: string
  row_title :: string
  row_updated :: int
  row_msgs :: int

record subagent_row =
  sub_key :: string
  sub_badge :: string
  sub_name :: string
  sub_created :: int
  sub_task :: string

record dashboard =
  header_uptime :: string
  header_ready :: bool
  banner :: "string option"
  stat_cards :: "stat_card list"
  sessions_total :: nat
  session_rows :: "session_row list"
  sessions_empty :: "string option"
  subagents_total :: nat
  subagent_rows :: "subagent_row list"
  subagents_empty :: "string option"
  logs_panel :: json
  service_panel :: json

datatype view = Initializing | Dashboard dashboard

text \<open>\<^verbatim>\<open>status?.sessions.length || 0\<close>, for either list.\<close>

definition length_or_0 :: "'a list option \<Rightarrow> nat" where
  "length_or_0 xs = (case xs of None \<Rightarrow> 0 | Some l \<Rightarrow> if length l = 0 then 0 else length l)"

text \<open>
  \<^verbatim>\<open>status?.model.split('-')[1].toUpperCase() || 'N/A'\<close>. The optional chain stops at an
  absent status only; on a present status the second piece is read and its method called,
  which throws when there is no second piece.
\<close>

definition model_label :: "(string \<Rightarrow> string) \<Rightarrow> SystemStatus option \<Rightarrow> js_error + string" where
  "model_label unicode_upper s =
     (case s of
        None \<Rightarrow> Inr ''N/A''
      | Some st \<Rightarrow>
          (case index (split_str CHR ''-'' (model st)) 1 of
             None \<Rightarrow> Inl TypeError
           | Some seg \<Rightarrow>
               (let u = toUpperCase unicode_upper seg
                in Inr (if u = [] then ''N/A'' else u))))"

text \<open>One element of \<^verbatim>\<open>status.sessions.map(...)\<close>, keyed by \<^verbatim>\<open>s.key\<close>.\<close>

definition render_session :: "Session \<Rightarrow> session_row" where
  "render_session s =
     \<lparr>row_key = key s, row_title = key s, row_updated = updated s, row_msgs = message_count s\<rparr>"

text \<open>
  One element of \<^verbatim>\<open>status.subagents.map(...)\<close>, keyed by \<^verbatim>\<open>t.id\<close>; the name shown is
  \<^verbatim>\<open>t.label || t.id\<close>.
\<close>

definition render_subagent :: "Subagent \<Rightarrow> subagent_row" where
  "render_subagent t =
     \<lparr>sub_key = subagent_id t, sub_badge = subagent_status t,
      sub_name = (if label t = [] then subagent_id t else label t),
      sub_created = subagent_created t, sub_task = task t\<rparr>"

text \<open>
  \<^verbatim>\<open>status?.sessions.length === 0 && <EmptyState message=... />\<close>: the placeholder with
  its message, or nothing.
\<close>

definition EmptyState_if_empty :: "'a list option \<Rightarrow> string \<Rightarrow> string option" where
  "EmptyState_if_empty xs message =
     (case xs of None \<Rightarrow> None | Some l \<Rightarrow> if length l = 0 then Some message else None)"

text \<open>
  The body of \<^verbatim>\<open>App\<close> after the hooks. The early return is the initializing screen. A
  fault while the element tree is built leaves the function: the result is \<open>Inl\<close>.
  The first argument is the case mapping beyond ASCII that \<open>toUpperCase\<close> takes.
\<close>

definition render :: "(string \<Rightarrow> string) \<Rightarrow> ViewState \<Rightarrow> js_error + view" where
  "render unicode_upper vs =
     (if loading vs \<and> status vs = None then Inr Initializing
      else
        (case model_label unicode_upper (status vs) of
           Inl err \<Rightarrow> Inl err
         | Inr core_model \<Rightarrow>
             Inr (Dashboard
               \<lparr>header_uptime =
                  (case status vs of None \<Rightarrow> ''0s''
                   | Some st \<Rightarrow> if uptime st = [] then ''0s'' else uptime st),
                header_ready = (case status vs of None \<Rightarrow> False | Some st \<Rightarrow> ready st),
                banner =
                  (case error vs of None \<Rightarrow> None
                   | Some message \<Rightarrow> if message = [] then None else Some message),
                stat_cards =
                  [StatCard ''Active Sessions''
                     (NumValue (length_or_0 (map_option sessions (status vs)))) None,
                   StatCard ''Running Subagents''
                     (NumValue (length_or_0 (map_option subagents (status vs)))) None,
                   StatCard ''Core Model'' (StrValue core_model) (map_option model (status vs)),
                   StatCard ''Workspace'' (StrValue ''Isolated'')
                     (map_option workspace (status vs))],
                sessions_total = length_or_0 (map_option sessions (status vs)),
                session_rows =
                  (case status vs of None \<Rightarrow> [] | Some st \<Rightarrow> map render_session (sessions st)),
                sessions_empty =
                  EmptyState_if_empty (map_option sessions (status vs))
                    ''No active sessions found'',
                subagents_total = length_or_0 (map_option subagents (status vs)),
                subagent_rows =
                  (case status vs of None \<Rightarrow> []
                   | Some st \<Rightarrow> map render_subagent (subagents st)),
                subagents_empty =
                  EmptyState_if_empty (map_option subagents (status vs))
                    ''No background tasks running'',
                logs_panel = (if truthy (logs vs) then logs vs else JStr ''No logs available''),
                service_panel =
                  (if truthy (service vs) then service vs
                   else JStr ''Loading service status...'')\<rparr>)))"

section \<open>Poller\<close>

text \<open>
  \<^verbatim>\<open>
  useEffect(() => {
    fetchStatus(); fetchLogs(); fetchService();
    const interval = setInterval(() => {
      fetchStatus(); fetchLogs(); fetchService();
    }, 5000);
    return () => clearInterval(interval);
  }, []);
  \<close>
  Time is a simulated clock in milliseconds. The state of the poller is the clock, the
  due time of the repeating timer (\<open>None\<close> when none is registered) and the log of the
  requests issued so far, each with the time of its issue.
\<close>

datatype endpoint = StatusEndpoint | LogsEndpoint | ServiceEndpoint

fun endpoint_path :: "endpoint \<Rightarrow> string" where
  "endpoint_path StatusEndpoint = ''/admin/status''"
| "endpoint_path LogsEndpoint = ''/admin/logs''"
| "endpoint_path ServiceEndpoint = ''/admin/service''"

definition endpoint_url :: "string \<Rightarrow> endpoint \<Rightarrow> string" where
  "endpoint_url hostname e = getApiBase hostname @ endpoint_path e"

record poller =
  clock :: nat
  timer :: "nat option"
  issued :: "(nat \<times> endpoint) list"

definition idle :: poller where
  "idle = \<lparr>clock = 0, timer = None, issued = []\<rparr>"

text \<open>One round: the three calls, in the order of the source, at the time of the clock.\<close>

definition requests_at :: "nat \<Rightarrow> (nat \<times> endpoint) list" where
  "requests_at t = [(t, StatusEndpoint), (t, LogsEndpoint), (t, ServiceEndpoint)]"

definition fetch_round :: "poller \<Rightarrow> poller" where
  "fetch_round p = p\<lparr>issued := issued p @ requests_at (clock p)\<rparr>"

text \<open>The effect: one round now, then the timer, first due one period from now.\<close>

definition mount :: "poller \<Rightarrow> poller" where
  "mount p = (fetch_round p)\<lparr>timer := Some (clock p + 5000)\<rparr>"

text \<open>The cleanup: \<^verbatim>\<open>clearInterval\<close>.\<close>

definition unmount :: "poller \<Rightarrow> poller" where
  "unmount p = p\<lparr>timer := None\<rparr>"

text \<open>
  Letting the clock run to time \<open>t\<close>: while the timer is due no later than \<open>t\<close>, the
  callback runs at the due time and the timer is due again one period later.
\<close>

function run_to :: "nat \<Rightarrow> poller \<Rightarrow> poller" where
  "run_to t p =
     (case timer p of
        None \<Rightarrow> p\<lparr>clock := max (clock p) t\<rparr>
      | Some due \<Rightarrow>
          if due \<le> t
          then run_to t ((fetch_round (p\<lparr>clock := max (clock p) due\<rparr>))\<lparr>timer := Some (due + 5000)\<rparr>)
          else p\<lparr>clock := max (clock p) t\<rparr>)"
  by pat_completeness auto
termination
  by (relation "measure (\<lambda>(t, p). case timer p of None \<Rightarrow> 0 | Some due \<Rightarrow> Suc t - due)")
     (auto simp: fetch_round_def)

declare run_to.simps [simp del]

text \<open>The number of requests issued to one endpoint.\<close>

definition rounds :: "endpoint \<Rightarrow> poller \<Rightarrow> nat" where
  "rounds e p = length (filter (\<lambda>r. snd r = e) (issued p))"

text \<open>
  For the proofs: the number of times a timer due at \<open>due\<close> fires up to time \<open>t\<close>,
  in closed form.
\<close>

definition ticks :: "nat \<Rightarrow> nat \<Rightarrow> nat" where
  "ticks due t = (if due \<le> t then (t - due) div 5000 + 1 else 0)"


section \<open>Completions\<close>

text \<open>
  The state is changed only by the completion of a fetch; each completion is applied when
  it arrives, in whatever order. A history is the list of the completions so far, applied
  to the state the component is created with.
\<close>

datatype event =
    StatusSettled "SystemStatus fetched"
  | LogsSettled "json fetched"
  | ServiceSettled "json fetched"

fun settle :: "event \<Rightarrow> ViewState \<Rightarrow> ViewState" where
  "settle (StatusSettled r) vs = fetchStatus r vs"
| "settle (LogsSettled r) vs = fetchLogs r vs"
| "settle (ServiceSettled r) vs = fetchService r vs"

fun is_status_event :: "event \<Rightarrow> bool" where
  "is_status_event (StatusSettled r) = True"
| "is_status_event (LogsSettled r) = False"
| "is_status_event (ServiceSettled r) = False"

definition after_events :: "event list \<Rightarrow> ViewState" where
  "after_events evs = foldl (\<lambda>vs e. settle e vs) initial evs"

section \<open>The label as the specification words it\<close>

text \<open>
  The specification speaks of "the text after the first hyphen" of a model string, and of
  its "second segment". Both are written here from those words, to be compared with
  \<open>model_label\<close>, which is written from the source.
\<close>

definition after_first_hyphen :: "string \<Rightarrow> string" where
  "after_first_hyphen m = tl (dropWhile (\<lambda>c. c \<noteq> CHR ''-'') m)"

definition second_segment :: "string \<Rightarrow> string" where
  "second_segment m = takeWhile (\<lambda>c. c \<noteq> CHR ''-'') (after_first_hyphen m)"


section \<open>Properties of the string operations\<close>

lemma startsWith_iff: "startsWith s p \<longleftrightarrow> (\<exists>r. s = p @ r)"
  by (induction s p rule: startsWith.induct) auto

lemma includes_iff: "includes_str s sub \<longleftrightarrow> (\<exists>ps ss. s = ps @ sub @ ss)"
proof (induction s)
  case Nil
  show ?case by (cases sub) auto
next
  case (Cons c cs)
  show ?case
  proof
    assume "includes_str (c # cs) sub"
    then consider "startsWith (c # cs) sub" | "includes_str cs sub" by auto
    then show "\<exists>ps ss. c # cs = ps @ sub @ ss"
    proof cases
      case 1
      then obtain r where "c # cs = sub @ r" by (auto simp: startsWith_iff)
      then have "c # cs = [] @ sub @ r" by simp
      then show ?thesis by blast
    next
      case 2
      then obtain ps ss where "cs = ps @ sub @ ss" using Cons.IH by auto
      then have "c # cs = (c # ps) @ sub @ ss" by simp
      then show ?thesis by blast
    qed
  next
    assume "\<exists>ps ss. c # cs = ps @ sub @ ss"
    then obtain ps ss where e: "c # cs = ps @ sub @ ss" by blast
    show "includes_str (c # cs) sub"
    proof (cases ps)
      case Nil
      with e have "startsWith (c # cs) sub" by (auto simp: startsWith_iff)
      then show ?thesis by simp
    next
      case (Cons q qs)
      with e have "cs = qs @ sub @ ss" by simp
      then have "includes_str cs sub" using Cons.IH by blast
      then show ?thesis by simp
    qed
  qed
qed

section \<open>The endpoint resolver is a total two-valued function of the host name\<close>

text \<open>
  Claim C10. The resolver is a function of the host name alone. When the host name contains
  the marker \<^verbatim>\<open>operator.onl\<close> as a substring it returns the staging base
  \<^verbatim>\<open>https://weaver.operator.onl\<close>, and for every other host name the production base
  \<^verbatim>\<open>https://weaver.onl\<close>. It returns one of these two values on every input.
\<close>

theorem getApiBase_resolves:
  "getApiBase hostname =
     (if (\<exists>ps ss. hostname = ps @ ''operator.onl'' @ ss)
      then ''https://weaver.operator.onl'' else ''https://weaver.onl'')
   \<and> getApiBase hostname \<in> {''https://weaver.operator.onl'', ''https://weaver.onl''}"
  unfolding getApiBase_def Let_def includes_iff by simp

theorem getApiBase_resolves_witness:
  "getApiBase ''staging.operator.online'' = ''https://weaver.operator.onl''
   \<and> getApiBase ''weaver.onl'' = ''https://weaver.onl''
   \<and> (\<exists>ps ss. ''staging.operator.online'' = ps @ ''operator.onl'' @ ss)"
proof -
  have a: "''staging.operator.online'' = ''staging.'' @ ''operator.onl'' @ ''ine''" by simp
  have e: "\<exists>ps ss. ''staging.operator.online'' = ps @ ''operator.onl'' @ ss"
    using a by blast
  have s: "getApiBase ''staging.operator.online'' = ''https://weaver.operator.onl''"
    using getApiBase_resolves [of "''staging.operator.online''"] e by presburger
  have p: "getApiBase ''weaver.onl'' = ''https://weaver.onl''"
    by (simp add: getApiBase_def)
  from s p e show ?thesis by blast
qed

lemma split_str_not_Nil: "split_str sep s \<noteq> []"
  by (induction s) (auto split: list.splits)

lemma split_str_no_sep: "sep \<notin> set s \<Longrightarrow> split_str sep s = [s]"
  by (induction s) auto

lemma split_str_hd: "hd (split_str sep s) = takeWhile (\<lambda>c. c \<noteq> sep) s"
  by (induction s) (auto split: list.splits simp: split_str_not_Nil)

lemma split_str_tl:
  "sep \<in> set s \<Longrightarrow> tl (split_str sep s) = split_str sep (tl (dropWhile (\<lambda>c. c \<noteq> sep) s))"
  by (induction s) (auto split: list.splits simp: split_str_not_Nil)

text \<open>
  The second piece of a split exists exactly when the separator occurs, and is then the
  text between its first occurrence and the next one (or the end).
\<close>

lemma split_str_second:
  "index (split_str sep s) (Suc 0) =
     (if sep \<in> set s
      then Some (takeWhile (\<lambda>c. c \<noteq> sep) (tl (dropWhile (\<lambda>c. c \<noteq> sep) s)))
      else None)"
proof (cases "sep \<in> set s")
  case False
  then show ?thesis by (simp add: split_str_no_sep index_def)
next
  case True
  let ?r = "tl (dropWhile (\<lambda>c. c \<noteq> sep) s)"
  obtain w ws where s: "split_str sep s = w # ws"
    using split_str_not_Nil [of sep s] by (cases "split_str sep s") auto
  obtain v vs where r: "split_str sep ?r = v # vs"
    using split_str_not_Nil [of sep ?r] by (cases "split_str sep ?r") auto
  have "ws = v # vs" using split_str_tl [OF True] s r by simp
  moreover have "v = takeWhile (\<lambda>c. c \<noteq> sep) ?r" using split_str_hd [of sep ?r] r by simp
  ultimately show ?thesis using True s by (simp add: index_def)
qed

lemma toUpperCase_ascii: "is_ascii s \<Longrightarrow> toUpperCase tbl s = map ascii_upper_char s"
  by (simp add: toUpperCase_def)

lemma toUpperCase_beyond_ascii: "\<not> is_ascii s \<Longrightarrow> toUpperCase tbl s = tbl s"
  by (simp add: toUpperCase_def)

lemma toUpperCase_Nil: "toUpperCase tbl [] = []"
  by (simp add: toUpperCase_def is_ascii_def)

section \<open>The model label\<close>

lemma model_label_no_hyphen:
  "CHR ''-'' \<notin> set (model st) \<Longrightarrow> model_label tbl (Some st) = Inl TypeError"
  by (simp add: model_label_def split_str_second)

lemma model_label_hyphen:
  "CHR ''-'' \<in> set (model st) \<Longrightarrow>
   model_label tbl (Some st) =
     Inr (if toUpperCase tbl (second_segment (model st)) = [] then ''N/A''
          else toUpperCase tbl (second_segment (model st)))"
  by (simp add: model_label_def split_str_second second_segment_def after_first_hyphen_def
      Let_def)

text \<open>
  Claim C1 asks that a view whose status is present and whose model string has no hyphen
  shows the fallback label \<^verbatim>\<open>N/A\<close> on the Core Model card, and that the renderer never
  throws. The source does the opposite on every such state: the split has one piece, the
  read of the second piece gives \<^verbatim>\<open>undefined\<close>, the call of \<^verbatim>\<open>toUpperCase\<close> on it
  throws, and the fault leaves \<^verbatim>\<open>App\<close> before the fallback \<^verbatim>\<open>|| 'N/A'\<close> is reached. No
  view is produced.
\<close>

theorem render_throws_without_hyphen:
  assumes "status vs = Some st" and "CHR ''-'' \<notin> set (model st)"
  shows "render tbl vs = Inl TypeError"
  using assms by (simp add: render_def model_label_no_hyphen)

text \<open>
  The state after a first successful poll that reported the model \<^verbatim>\<open>gpt4\<close>. The case
  mapping beyond ASCII plays no part; it is set to the identity.
\<close>

theorem render_throws_without_hyphen_witness:
  "render id (initial\<lparr>loading := False,
      status := Some \<lparr>model = ''gpt4'', ready = True, sessions = [], subagents = [],
                      uptime = ''3h'', workspace = ''/srv/agent''\<rparr>\<rparr>) = Inl TypeError"
  by (rule render_throws_without_hyphen
        [where st = "\<lparr>model = ''gpt4'', ready = True, sessions = [], subagents = [],
                      uptime = ''3h'', workspace = ''/srv/agent''\<rparr>"])
     (simp_all add: initial_def)

text \<open>
  On \<^verbatim>\<open>claude-3-opus\<close> the label is \<^verbatim>\<open>3\<close> and the uppercase of the text after the first
  hyphen is \<^verbatim>\<open>3-OPUS\<close>, whatever the case mapping beyond ASCII is: both strings are
  ASCII.
\<close>

lemma core_model_label_two_hyphens:
  "model_label tbl (Some \<lparr>model = ''claude-3-opus'', ready = True, sessions = [],
                          subagents = [], uptime = ''3h'', workspace = ''/srv/agent''\<rparr>)
     = Inr ''3''
   \<and> toUpperCase tbl (after_first_hyphen ''claude-3-opus'') = ''3-OPUS''"
  by code_simp

text \<open>
  Claim C2 says that for a model string with at least one hyphen the short label is the
  uppercase of the entire text after the first hyphen. As stated it fails on a string with
  two hyphens: for \<^verbatim>\<open>claude-3-opus\<close> the source shows \<^verbatim>\<open>3\<close>, the uppercase of the text
  after the first hyphen is \<^verbatim>\<open>3-OPUS\<close>. The case mapping beyond ASCII, which neither
  string reaches, is set to the identity.
\<close>

theorem core_model_label_counterexample:
  "CHR ''-'' \<in> set ''claude-3-opus''
   \<and> model_label id (Some \<lparr>model = ''claude-3-opus'', ready = True, sessions = [],
                           subagents = [], uptime = ''3h'', workspace = ''/srv/agent''\<rparr>)
       = Inr ''3''
   \<and> toUpperCase id (after_first_hyphen ''claude-3-opus'') = ''3-OPUS''"
  by code_simp

text \<open>
  Claim C2, amended. For a model string with at least one hyphen the short label on the
  Core Model card is the uppercase of the second segment, that is of the text between the
  first hyphen and the next hyphen or the end of the string; when that uppercase is the
  empty string, as it is for an empty segment, the label is the fallback \<^verbatim>\<open>N/A\<close>. The
  render completes and the third stat card carries this label, with the full model string
  as its sub-value. This holds for every string and for every case mapping beyond ASCII.
\<close>

theorem core_model_label_second_segment:
  assumes "status vs = Some st" and "CHR ''-'' \<in> set (model st)"
  shows "model_label tbl (status vs) =
           Inr (if toUpperCase tbl (second_segment (model st)) = [] then ''N/A''
                else toUpperCase tbl (second_segment (model st)))
         \<and> (second_segment (model st) = [] \<longrightarrow> model_label tbl (status vs) = Inr ''N/A'')
         \<and> (\<exists>d. render tbl vs = Inr (Dashboard d) \<and>
                stat_cards d ! 2 =
                  StatCard ''Core Model''
                    (StrValue (if toUpperCase tbl (second_segment (model st)) = [] then ''N/A''
                               else toUpperCase tbl (second_segment (model st))))
                    (Some (model st)))"
  using assms by (simp add: render_def model_label_hyphen toUpperCase_Nil)

theorem core_model_label_second_segment_witness:
  "model_label id (status (initial\<lparr>loading := False,
      status := Some \<lparr>model = ''claude-3-opus'', ready = True, sessions = [], subagents = [],
                      uptime = ''3h'', workspace = ''/srv/agent''\<rparr>\<rparr>)) = Inr ''3''"
proof -
  let ?st = "\<lparr>model = ''claude-3-opus'', ready = True, sessions = [], subagents = [],
              uptime = ''3h'', workspace = ''/srv/agent''\<rparr>"
  let ?vs = "initial\<lparr>loading := False, status := Some ?st\<rparr>"
  have a: "status ?vs = Some ?st" by simp
  have b: "CHR ''-'' \<in> set (model ?st)" by simp
  have c: "second_segment (model ?st) = ''3''" by code_simp
  have d: "toUpperCase id ''3'' = ''3''" by code_simp
  show ?thesis using core_model_label_second_segment [OF a b, of id] c d by simp
qed

text \<open>
  The label is the uppercase of the entire text after the first hyphen in the common case:
  that text holds no further hyphen and its uppercase is not empty.
\<close>

lemma core_model_label_single_hyphen:
  assumes "CHR ''-'' \<in> set (model st)" and "CHR ''-'' \<notin> set (after_first_hyphen (model st))"
    and "toUpperCase tbl (after_first_hyphen (model st)) \<noteq> []"
  shows "model_label tbl (Some st) = Inr (toUpperCase tbl (after_first_hyphen (model st)))"
proof -
  have "second_segment (model st) = after_first_hyphen (model st)"
    using assms(2) by (auto simp: second_segment_def)
  then show ?thesis using assms by (simp add: model_label_hyphen)
qed

lemma core_model_label_empty_segment:
  "model_label tbl (Some \<lparr>model = ''claude-'', ready = True, sessions = [], subagents = [],
                          uptime = ''3h'', workspace = ''/srv/agent''\<rparr>) = Inr ''N/A''"
  by code_simp

text \<open>
  A segment beyond ASCII: the model string \<^verbatim>\<open>x-\<close> followed by the two bytes of an
  accented e. The label is what the case mapping gives for the segment.
\<close>

lemma core_model_label_beyond_ascii:
  "model_label tbl (Some \<lparr>model = [CHR ''x'', CHR ''-'', CHR 0xC3, CHR 0xA9], ready = True,
                          sessions = [], subagents = [], uptime = ''3h'',
                          workspace = ''/srv/agent''\<rparr>)
     = Inr (if tbl [CHR 0xC3, CHR 0xA9] = [] then ''N/A'' else tbl [CHR 0xC3, CHR 0xA9])"
  by code_simp

section \<open>The status fetch\<close>

text \<open>
  Claim C3. Every outcome of the status fetch is one of four: the request is rejected, the
  response is not \<^verbatim>\<open>ok\<close>, the body does not parse, or the body parses. In the first three
  the error is set to the message of the failure (for a response that is not \<^verbatim>\<open>ok\<close> the
  fixed message \<^verbatim>\<open>Failed to fetch status\<close>) and the status is the one held before. In the
  last the status is the parsed payload, whatever was held before, and the error is
  cleared. The logs and service cells are not touched.
\<close>

theorem fetchStatus_outcomes:
  "status (fetchStatus (Resolved (Response False body)) vs) = status vs
   \<and> error (fetchStatus (Resolved (Response False body)) vs) = Some ''Failed to fetch status''
   \<and> status (fetchStatus (Resolved (Response True (Inl message))) vs) = status vs
   \<and> error (fetchStatus (Resolved (Response True (Inl message))) vs) = Some message
   \<and> status (fetchStatus (Rejected message) vs) = status vs
   \<and> error (fetchStatus (Rejected message) vs) = Some message
   \<and> status (fetchStatus (Resolved (Response True (Inr data))) vs) = Some data
   \<and> error (fetchStatus (Resolved (Response True (Inr data))) vs) = None
   \<and> logs (fetchStatus r vs) = logs vs
   \<and> service (fetchStatus r vs) = service vs"
  by (simp add: fetchStatus_def fetchStatus_try_def Let_def
      split: fetched.split response.split sum.split)

text \<open>
  A failure after a success: the lists of the earlier snapshot are still rendered, and the
  banner carries the message.
\<close>

lemma fetchStatus_failure_keeps_view:
  "render tbl (fetchStatus (Resolved (Response False body))
      (fetchStatus (Resolved (Response True (Inr
         \<lparr>model = ''claude-opus'', ready = True,
          sessions = [\<lparr>key = ''s1'', message_count = 4, updated = 10, created = 5\<rparr>],
          subagents = [], uptime = ''3h'', workspace = ''/srv/agent''\<rparr>))) initial))
   = Inr (Dashboard
       \<lparr>header_uptime = ''3h'', header_ready = True,
        banner = Some ''Failed to fetch status'',
        stat_cards =
          [\<lparr>card_label = ''Active Sessions'', card_value = NumValue 1, card_sub = None\<rparr>,
           \<lparr>card_label = ''Running Subagents'', card_value = NumValue 0, card_sub = None\<rparr>,
           \<lparr>card_label = ''Core Model'', card_value = StrValue ''OPUS'',
            card_sub = Some ''claude-opus''\<rparr>,
           \<lparr>card_label = ''Workspace'', card_value = StrValue ''Isolated'',
            card_sub = Some ''/srv/agent''\<rparr>],
        sessions_total = 1,
        session_rows =
          [\<lparr>row_key = ''s1'', row_title = ''s1'', row_updated = 10, row_msgs = 4\<rparr>],
        sessions_empty = None,
        subagents_total = 0, subagent_rows = [],
        subagents_empty = Some ''No background tasks running'',
        logs_panel = JStr ''No logs available'',
        service_panel = JStr ''Loading service status...''\<rparr>)"
  by code_simp

section \<open>The logs and service fetches\<close>

text \<open>Neither fetch touches a cell other than its own.\<close>

lemma fetchLogs_frame:
  "status (fetchLogs r vs) = status vs \<and> service (fetchLogs r vs) = service vs
   \<and> error (fetchLogs r vs) = error vs \<and> loading (fetchLogs r vs) = loading vs"
  by (simp add: fetchLogs_def split: option.split)

lemma fetchService_frame:
  "status (fetchService r vs) = status vs \<and> logs (fetchService r vs) = logs vs
   \<and> error (fetchService r vs) = error vs \<and> loading (fetchService r vs) = loading vs"
  by (simp add: fetchService_def split: option.split)

text \<open>
  What the source treats as a failure: a rejected request, a body that does not parse, a
  body that parses to \<^verbatim>\<open>null\<close>. Each leaves the whole state as it was.
\<close>

lemma fetchLogs_failure_retains:
  "fetchLogs (Rejected message) vs = vs
   \<and> fetchLogs (Resolved (Response k (Inl message))) vs = vs
   \<and> fetchLogs (Resolved (Response k (Inr JNull))) vs = vs"
  by (simp add: fetchLogs_def fetchOutput_try_def)

lemma fetchService_failure_retains:
  "fetchService (Rejected message) vs = vs
   \<and> fetchService (Resolved (Response k (Inl message))) vs = vs
   \<and> fetchService (Resolved (Response k (Inr JNull))) vs = vs"
  by (simp add: fetchService_def fetchOutput_try_def)

text \<open>
  Claim C4 asks that every failure of the logs fetch, and of the service fetch, leaves the
  text held before, a response with a non-success HTTP status included. The source never
  reads \<^verbatim>\<open>res.ok\<close> in these two fetches, where \<^verbatim>\<open>fetchStatus\<close> does: a response with
  status 500 and the body \<^verbatim>\<open>{"error": "boom"}\<close> is taken for a success, and the text held
  before is replaced by the empty string.
\<close>

theorem fetch_output_http_error_overwrites:
  "logs (fetchLogs (Resolved (Response False (Inr (JObj [(''error'', JStr ''boom'')]))))
          (initial\<lparr>logs := JStr ''line 1''\<rparr>)) = JStr []
   \<and> service (fetchService (Resolved (Response False (Inr (JObj [(''error'', JStr ''boom'')]))))
          (initial\<lparr>service := JStr ''active (running)''\<rparr>)) = JStr []"
  by (simp add: fetchLogs_def fetchService_def fetchOutput_try_def or_empty_def)

text \<open>
  Claim C5 says that every response whose body parses as JSON is taken for a success and
  has the text set from its \<^verbatim>\<open>output\<close> member. As stated it fails on the body
  \<^verbatim>\<open>null\<close>, which parses: the read of \<^verbatim>\<open>output\<close> on it throws, the \<^verbatim>\<open>catch\<close> swallows the
  fault, and the text held before stays.
\<close>

theorem fetch_output_null_body_counterexample:
  "logs (fetchLogs (Resolved (Response False (Inr JNull))) (initial\<lparr>logs := JStr ''line 1''\<rparr>))
     = JStr ''line 1''
   \<and> service (fetchService (Resolved (Response False (Inr JNull)))
        (initial\<lparr>service := JStr ''active (running)''\<rparr>)) = JStr ''active (running)''"
  by (simp add: fetchLogs_def fetchService_def fetchOutput_try_def)

text \<open>
  Claim C5, amended. The logs and service fetches never read the HTTP status: the result is
  the same for either value of \<^verbatim>\<open>ok\<close>. For every response whose body parses to a JSON
  value other than \<^verbatim>\<open>null\<close>, the read of \<^verbatim>\<open>output\<close> succeeds and the stored value is
  that member when it is present and truthy, and the empty string when it is missing or
  falsy. So an error response whose body is a JSON object without \<^verbatim>\<open>output\<close> replaces
  the text held before by the empty string.
\<close>

theorem fetch_output_ignores_http_status:
  assumes "data \<noteq> JNull"
  shows "\<exists>v. output_of data = Inr v
           \<and> logs (fetchLogs (Resolved (Response k (Inr data))) vs)
               = (case v of None \<Rightarrow> JStr [] | Some x \<Rightarrow> if truthy x then x else JStr [])
           \<and> service (fetchService (Resolved (Response k (Inr data))) vs)
               = (case v of None \<Rightarrow> JStr [] | Some x \<Rightarrow> if truthy x then x else JStr [])
           \<and> fetchLogs (Resolved (Response k (Inr data))) vs
               = fetchLogs (Resolved (Response (\<not> k) (Inr data))) vs
           \<and> fetchService (Resolved (Response k (Inr data))) vs
               = fetchService (Resolved (Response (\<not> k) (Inr data))) vs"
  using assms
  by (cases data) (simp_all add: fetchLogs_def fetchService_def fetchOutput_try_def or_empty_def)

theorem fetch_output_ignores_http_status_witness:
  "logs (fetchLogs (Resolved (Response False (Inr (JObj [(''detail'', JStr ''bad gateway'')]))))
          (initial\<lparr>logs := JStr ''line 1''\<rparr>)) = JStr []"
proof -
  let ?data = "JObj [(''detail'', JStr ''bad gateway'')]"
  have n: "?data \<noteq> JNull" by simp
  have o: "output_of ?data = Inr None" by simp
  show ?thesis
    using fetch_output_ignores_http_status
      [OF n, of False "initial\<lparr>logs := JStr ''line 1''\<rparr>"] o
    by auto
qed

lemma fetch_output_object:
  "logs (fetchLogs (Resolved (Response k (Inr (JObj members)))) vs)
     = (case map_of members ''output'' of None \<Rightarrow> JStr []
        | Some x \<Rightarrow> if truthy x then x else JStr [])"
  by (simp add: fetchLogs_def fetchOutput_try_def or_empty_def)

lemma fetch_output_success:
  "logs (fetchLogs (Resolved (Response True (Inr (JObj [(''output'', JStr ''line 2'')]))))
          (initial\<lparr>logs := JStr ''line 1''\<rparr>)) = JStr ''line 2''"
  by (simp add: fetchLogs_def fetchOutput_try_def or_empty_def)

section \<open>The loading flag and the initializing screen\<close>

lemma fetchStatus_loading: "\<not> loading (fetchStatus r vs)"
  by (simp add: fetchStatus_def Let_def)

lemma after_events_snoc: "after_events (evs @ [e]) = settle e (after_events evs)"
  by (simp add: after_events_def)

text \<open>
  Along every history the flag is up exactly while no status fetch has settled, and until
  then no status is held.
\<close>

lemma loading_history:
  "loading (after_events evs) = (filter is_status_event evs = [])
   \<and> (filter is_status_event evs = [] \<longrightarrow> status (after_events evs) = None)"
proof (induction evs rule: rev_induct)
  case Nil
  show ?case by (simp add: after_events_def initial_def)
next
  case (snoc e evs)
  show ?case
  proof (cases e)
    case (StatusSettled r)
    then show ?thesis by (simp add: after_events_snoc fetchStatus_loading)
  next
    case (LogsSettled r)
    then show ?thesis using snoc by (simp add: after_events_snoc fetchLogs_frame)
  next
    case (ServiceSettled r)
    then show ?thesis using snoc by (simp add: after_events_snoc fetchService_frame)
  qed
qed

text \<open>
  Claim C9. The loading flag starts true. Every settled status fetch leaves it false,
  whatever the outcome, and the logs and service fetches leave it as it was. The
  initializing screen, which holds no panel, is what the renderer returns exactly when the
  flag is true and no status is held; along every history of completions from the first
  state that is exactly as long as no status fetch has settled.
\<close>

theorem loading_and_initializing:
  "loading initial
   \<and> \<not> loading (fetchStatus r vs)
   \<and> loading (fetchLogs q vs) = loading vs
   \<and> loading (fetchService q vs) = loading vs
   \<and> (render tbl vs = Inr Initializing) = (loading vs \<and> status vs = None)
   \<and> loading (after_events evs) = (filter is_status_event evs = [])
   \<and> (render tbl (after_events evs) = Inr Initializing) = (filter is_status_event evs = [])"
proof -
  have r: "(render tbl ws = Inr Initializing) = (loading ws \<and> status ws = None)" for ws
    by (simp add: render_def split: sum.split)
  have h: "(render tbl (after_events evs) = Inr Initializing)
             = (filter is_status_event evs = [])"
    using loading_history [of evs] by (auto simp: r)
  show ?thesis
    using r [of vs] h loading_history [of evs]
    by (simp add: initial_def fetchStatus_loading fetchLogs_frame fetchService_frame)
qed

theorem loading_and_initializing_witness:
  "render id initial = Inr Initializing
   \<and> render id (after_events [LogsSettled (Rejected ''offline'')]) = Inr Initializing
   \<and> render id (after_events [StatusSettled (Rejected ''offline'')]) \<noteq> Inr Initializing"
proof -
  have a: "loading initial \<and> status initial = None" by (simp add: initial_def)
  have b: "filter is_status_event [LogsSettled (Rejected ''offline'')] = []" by simp
  have c: "filter is_status_event [StatusSettled (Rejected ''offline'')] \<noteq> []" by simp
  show ?thesis
    using loading_and_initializing
        [where vs = initial and tbl = id and evs = "[LogsSettled (Rejected ''offline'')]"]
      loading_and_initializing
        [where vs = initial and tbl = id and evs = "[StatusSettled (Rejected ''offline'')]"]
      a b c
    by simp
qed

section \<open>The count cards, the lists and the empty states\<close>

text \<open>
  On a state whose status is present and whose model string holds a hyphen the render
  completes, and the counts, the rows and the placeholders are these.
\<close>

lemma render_with_hyphen:
  assumes "status vs = Some st" and "CHR ''-'' \<in> set (model st)"
  shows "\<exists>d. render tbl vs = Inr (Dashboard d)
           \<and> stat_cards d ! 0 = StatCard ''Active Sessions'' (NumValue (length (sessions st))) None
           \<and> stat_cards d ! 1 =
               StatCard ''Running Subagents'' (NumValue (length (subagents st))) None
           \<and> sessions_total d = length (sessions st)
           \<and> subagents_total d = length (subagents st)
           \<and> session_rows d = map render_session (sessions st)
           \<and> subagent_rows d = map render_subagent (subagents st)
           \<and> sessions_empty d =
               (if sessions st = [] then Some ''No active sessions found'' else None)
           \<and> subagents_empty d =
               (if subagents st = [] then Some ''No background tasks running'' else None)"
  using assms
  by (simp add: render_def model_label_hyphen length_or_0_def EmptyState_if_empty_def)

text \<open>
  Claim C8 asks that for every state whose status is present the two count cards show the
  lengths of the sessions and subagents lists, and that an empty sessions list shows the
  empty-state placeholder and the count 0. The source does not get that far on a state
  whose model string has no hyphen: the fault at the Core Model card (claim C1) leaves
  \<^verbatim>\<open>App\<close>, so no card and no placeholder is shown. Two such states: one with no session,
  one with a session and a subagent.
\<close>

theorem count_cards_lost_without_hyphen:
  "render tbl (initial\<lparr>loading := False,
      status := Some \<lparr>model = ''llama3'', ready = True, sessions = [], subagents = [],
                      uptime = ''9m'', workspace = ''/srv/agent''\<rparr>\<rparr>) = Inl TypeError
   \<and> render tbl (initial\<lparr>loading := False,
      status := Some \<lparr>model = ''llama3'', ready = True,
                      sessions = [\<lparr>key = ''s1'', message_count = 4, updated = 10, created = 5\<rparr>],
                      subagents = [\<lparr>subagent_id = ''a9'', task = ''index the repo'',
                                    label = ''indexer'', subagent_status = ''running'',
                                    subagent_created = 3\<rparr>],
                      uptime = ''9m'', workspace = ''/srv/agent''\<rparr>\<rparr>) = Inl TypeError"
  by (simp add: render_def model_label_no_hyphen initial_def)

text \<open>
  Where the model string holds a hyphen the source does what claim C8 says: the Active
  Sessions card shows the length of the sessions list and the Running Subagents card the
  length of the subagents list; when the sessions list is empty the list holds no row, the
  empty-state placeholder is there in its place and the count shown is 0; when it is not
  empty there is no placeholder.
\<close>

lemma count_cards_with_hyphen:
  assumes "status vs = Some st" and "CHR ''-'' \<in> set (model st)"
  shows "\<exists>d. render tbl vs = Inr (Dashboard d)
           \<and> card_label (stat_cards d ! 0) = ''Active Sessions''
           \<and> card_value (stat_cards d ! 0) = NumValue (length (sessions st))
           \<and> card_label (stat_cards d ! 1) = ''Running Subagents''
           \<and> card_value (stat_cards d ! 1) = NumValue (length (subagents st))
           \<and> (sessions st = [] \<longrightarrow>
                 session_rows d = []
                 \<and> sessions_empty d = Some ''No active sessions found''
                 \<and> card_value (stat_cards d ! 0) = NumValue 0)
           \<and> (sessions st \<noteq> [] \<longrightarrow> sessions_empty d = None)"
proof -
  obtain d where d: "render tbl vs = Inr (Dashboard d)"
    and c0: "stat_cards d ! 0 = StatCard ''Active Sessions'' (NumValue (length (sessions st))) None"
    and c1: "stat_cards d ! 1 =
               StatCard ''Running Subagents'' (NumValue (length (subagents st))) None"
    and rows: "session_rows d = map render_session (sessions st)"
    and empty: "sessions_empty d =
               (if sessions st = [] then Some ''No active sessions found'' else None)"
    using render_with_hyphen [OF assms] by blast
  show ?thesis
    using d c0 c1 rows empty by (simp add: StatCard_def)
qed

lemma count_cards_with_hyphen_example:
  "\<exists>d. render id (initial\<lparr>loading := False,
      status := Some \<lparr>model = ''claude-opus'', ready = True, sessions = [], subagents = [],
                      uptime = ''9m'', workspace = ''/srv/agent''\<rparr>\<rparr>) = Inr (Dashboard d)
       \<and> card_value (stat_cards d ! 0) = NumValue 0
       \<and> session_rows d = []
       \<and> sessions_empty d = Some ''No active sessions found''"
proof -
  let ?st = "\<lparr>model = ''claude-opus'', ready = True, sessions = [], subagents = [],
              uptime = ''9m'', workspace = ''/srv/agent''\<rparr>"
  let ?vs = "initial\<lparr>loading := False, status := Some ?st\<rparr>"
  have a: "status ?vs = Some ?st" by simp
  have b: "CHR ''-'' \<in> set (model ?st)" by simp
  have e: "sessions ?st = []" by simp
  show ?thesis using count_cards_with_hyphen [OF a b, of id] e by auto
qed

text \<open>
  Claim C6 asks that for every valid status payload, parsing it and rendering the view
  reproduces every session key and every subagent id once, in the order of the payload. A
  payload of the declared type \<^verbatim>\<open>SystemStatus\<close> is stored as it is parsed, nothing
  validates its model string. On the payload below, with the model \<^verbatim>\<open>gpt4\<close>, two sessions
  and a subagent, the successful status fetch stores the payload and the render of the
  state it leaves throws at the Core Model card (claim C1): no row is produced, so neither
  session key nor the subagent id is reproduced.
\<close>

theorem round_trip_lost_without_hyphen:
  "status (fetchStatus (Resolved (Response True (Inr
          \<lparr>model = ''gpt4'', ready = True,
           sessions = [\<lparr>key = ''s2'', message_count = 4, updated = 10, created = 5\<rparr>,
                       \<lparr>key = ''s1'', message_count = 0, updated = 7, created = 7\<rparr>],
           subagents = [\<lparr>subagent_id = ''a9'', task = ''index the repo'', label = ''indexer'',
                         subagent_status = ''running'', subagent_created = 3\<rparr>],
           uptime = ''9m'', workspace = ''/srv/agent''\<rparr>))) initial)
     = Some \<lparr>model = ''gpt4'', ready = True,
           sessions = [\<lparr>key = ''s2'', message_count = 4, updated = 10, created = 5\<rparr>,
                       \<lparr>key = ''s1'', message_count = 0, updated = 7, created = 7\<rparr>],
           subagents = [\<lparr>subagent_id = ''a9'', task = ''index the repo'', label = ''indexer'',
                         subagent_status = ''running'', subagent_created = 3\<rparr>],
           uptime = ''9m'', workspace = ''/srv/agent''\<rparr>
   \<and> render tbl (fetchStatus (Resolved (Response True (Inr
          \<lparr>model = ''gpt4'', ready = True,
           sessions = [\<lparr>key = ''s2'', message_count = 4, updated = 10, created = 5\<rparr>,
                       \<lparr>key = ''s1'', message_count = 0, updated = 7, created = 7\<rparr>],
           subagents = [\<lparr>subagent_id = ''a9'', task = ''index the repo'', label = ''indexer'',
                         subagent_status = ''running'', subagent_created = 3\<rparr>],
           uptime = ''9m'', workspace = ''/srv/agent''\<rparr>))) initial) = Inl TypeError"
  by (simp add: render_def model_label_no_hyphen fetchStatus_def fetchStatus_try_def
      initial_def)

text \<open>
  Where the model string of the payload holds a hyphen the source does what claim C6 says.
  Parsing is the successful status fetch, from any state. The render of the state it
  leaves completes; its session rows are keyed, and titled, by the session keys of the
  payload, one row for each session in the order of the payload, and its subagent rows are
  keyed by the subagent ids of the payload in the same way. The name shown on a subagent
  row is its label, or its id when the label is empty.
\<close>

lemma round_trip_with_hyphen:
  assumes "CHR ''-'' \<in> set (model payload)"
  shows "\<exists>d. render tbl (fetchStatus (Resolved (Response True (Inr payload))) vs)
               = Inr (Dashboard d)
           \<and> map row_key (session_rows d) = map key (sessions payload)
           \<and> map row_title (session_rows d) = map key (sessions payload)
           \<and> map sub_key (subagent_rows d) = map subagent_id (subagents payload)
           \<and> map sub_name (subagent_rows d) =
               map (\<lambda>t. if label t = [] then subagent_id t else label t) (subagents payload)"
proof -
  let ?vs = "fetchStatus (Resolved (Response True (Inr payload))) vs"
  have s: "status ?vs = Some payload"
    by (simp add: fetchStatus_def fetchStatus_try_def)
  obtain d where d: "render tbl ?vs = Inr (Dashboard d)"
    and rows: "session_rows d = map render_session (sessions payload)"
    and subs: "subagent_rows d = map render_subagent (subagents payload)"
    using render_with_hyphen [OF s assms] by blast
  have "map row_key (map render_session xs) = map key xs" for xs
    by (induction xs) (simp_all add: render_session_def)
  moreover have "map row_title (map render_session xs) = map key xs" for xs
    by (induction xs) (simp_all add: render_session_def)
  moreover have "map sub_key (map render_subagent ys) = map subagent_id ys" for ys
    by (induction ys) (simp_all add: render_subagent_def)
  moreover have "map sub_name (map render_subagent ys) =
      map (\<lambda>t. if label t = [] then subagent_id t else label t) ys" for ys
    by (induction ys) (simp_all add: render_subagent_def)
  ultimately show ?thesis using d rows subs by simp
qed

lemma round_trip_with_hyphen_example:
  "\<exists>d. render id (fetchStatus (Resolved (Response True (Inr
          \<lparr>model = ''claude-opus'', ready = True,
           sessions = [\<lparr>key = ''s2'', message_count = 4, updated = 10, created = 5\<rparr>,
                       \<lparr>key = ''s1'', message_count = 0, updated = 7, created = 7\<rparr>],
           subagents = [\<lparr>subagent_id = ''a9'', task = ''index the repo'', label = ''indexer'',
                         subagent_status = ''running'', subagent_created = 3\<rparr>],
           uptime = ''9m'', workspace = ''/srv/agent''\<rparr>))) initial) = Inr (Dashboard d)
       \<and> map row_key (session_rows d) = [''s2'', ''s1'']
       \<and> map sub_key (subagent_rows d) = [''a9'']"
proof -
  let ?p = "\<lparr>model = ''claude-opus'', ready = True,
           sessions = [\<lparr>key = ''s2'', message_count = 4, updated = 10, created = 5\<rparr>,
                       \<lparr>key = ''s1'', message_count = 0, updated = 7, created = 7\<rparr>],
           subagents = [\<lparr>subagent_id = ''a9'', task = ''index the repo'', label = ''indexer'',
                         subagent_status = ''running'', subagent_created = 3\<rparr>],
           uptime = ''9m'', workspace = ''/srv/agent''\<rparr>"
  have h: "CHR ''-'' \<in> set (model ?p)" by simp
  show ?thesis using round_trip_with_hyphen [OF h, of id initial] by auto
qed

section \<open>The polling cadence\<close>

lemma run_to_no_timer: "timer p = None \<Longrightarrow> run_to t p = p\<lparr>clock := max (clock p) t\<rparr>"
  by (subst run_to.simps) simp

lemma run_to_not_due:
  "timer p = Some due \<Longrightarrow> t < due \<Longrightarrow> run_to t p = p\<lparr>clock := max (clock p) t\<rparr>"
  by (subst run_to.simps) simp

lemma run_to_due:
  "timer p = Some due \<Longrightarrow> due \<le> t \<Longrightarrow>
   run_to t p =
     run_to t ((fetch_round (p\<lparr>clock := max (clock p) due\<rparr>))\<lparr>timer := Some (due + 5000)\<rparr>)"
  by (subst run_to.simps) simp

lemma ticks_not_due: "t < due \<Longrightarrow> ticks due t = 0"
  by (simp add: ticks_def)

lemma ticks_due: "due \<le> t \<Longrightarrow> ticks due t = Suc (ticks (due + 5000) t)"
proof (cases "due + 5000 \<le> t")
  case True
  then have "t - due = (t - (due + 5000)) + 5000" by simp
  then have "(t - due) div 5000 = (t - (due + 5000)) div 5000 + 1"
    by (metis div_add_self2 zero_neq_numeral)
  then show ?thesis using True by (simp add: ticks_def)
next
  case False
  assume "due \<le> t"
  with False have "t - due < 5000" by simp
  then show ?thesis using False \<open>due \<le> t\<close> by (simp add: ticks_def)
qed

lemma ticks_first_period: "ticks 5000 t = t div 5000"
proof (cases "5000 \<le> t")
  case True
  then have "t = (t - 5000) + 5000" by simp
  then have "t div 5000 = (t - 5000) div 5000 + 1"
    by (metis div_add_self2 zero_neq_numeral)
  then show ?thesis using True by (simp add: ticks_def)
next
  case False
  then show ?thesis by (simp add: ticks_def)
qed

text \<open>
  The requests of a run, in full: after what was issued before, one round at the due time
  and one at every period after it, as long as the time is not past \<open>t\<close>.
\<close>

lemma run_to_issued:
  "timer p = Some due \<Longrightarrow> clock p \<le> due \<Longrightarrow>
   issued (run_to t p) =
     issued p @ concat (map (\<lambda>k. requests_at (due + k * 5000)) [0 ..< ticks due t])"
proof (induction t p arbitrary: due rule: run_to.induct)
  case (1 t p)
  show ?case
  proof (cases "due \<le> t")
    case False
    then have "ticks due t = 0" by (simp add: ticks_not_due)
    then show ?thesis using False "1.prems" by (simp add: run_to_not_due)
  next
    case True
    let ?p = "(fetch_round (p\<lparr>clock := max (clock p) due\<rparr>))\<lparr>timer := Some (due + 5000)\<rparr>"
    let ?n = "ticks (due + 5000) t"
    have t: "timer ?p = Some (due + 5000)" by (simp add: fetch_round_def)
    have c: "clock ?p \<le> due + 5000" using "1.prems" by (simp add: fetch_round_def)
    have i: "issued ?p = issued p @ requests_at due"
      using "1.prems" by (simp add: fetch_round_def max_def)
    have m: "map (\<lambda>k. requests_at (due + k * 5000)) [0 ..< Suc ?n] =
             requests_at due # map (\<lambda>k. requests_at (due + 5000 + k * 5000)) [0 ..< ?n]"
      by (simp only: map_upt_Suc) (simp add: add.assoc)
    have "issued (run_to t p) = issued (run_to t ?p)"
      using run_to_due [OF "1.prems"(1) True] by simp
    also have "\<dots> = issued ?p @
        concat (map (\<lambda>k. requests_at (due + 5000 + k * 5000)) [0 ..< ?n])"
      using "1.IH" [OF "1.prems"(1) True t c] .
    also have "\<dots> = issued p @
        concat (map (\<lambda>k. requests_at (due + k * 5000)) [0 ..< Suc ?n])"
      by (simp only: i m concat.simps append_assoc)
    finally show ?thesis by (simp only: ticks_due [OF True])
  qed
qed

lemma requests_at_count: "length (filter (\<lambda>r. snd r = e) (requests_at t)) = 1"
  by (cases e) (simp_all add: requests_at_def)

lemma round_count:
  "length (filter (\<lambda>r. snd r = e) (concat (map (\<lambda>k. requests_at (f k)) [0 ..< n]))) = n"
  by (induction n) (simp_all add: requests_at_count)

text \<open>
  Claim C7. Activation issues one request to each of the three endpoints at once and
  registers the timer. With no teardown, by time \<open>t\<close> (in milliseconds) each endpoint has
  been asked once at activation and once at every whole multiple of 5000 up to \<open>t\<close>: in
  all \<open>1 + t div 5000\<close> times, which is 5 for a window of 20 seconds. Teardown removes the
  timer, and however long the clock runs after it no request is added: a teardown at 12
  seconds leaves each endpoint at its 3 requests.
\<close>

theorem poller_cadence:
  "issued (mount idle) = [(0, StatusEndpoint), (0, LogsEndpoint), (0, ServiceEndpoint)]
   \<and> issued (run_to t (mount idle)) =
       concat (map (\<lambda>k. requests_at (k * 5000)) [0 ..< Suc (t div 5000)])
   \<and> rounds e (run_to t (mount idle)) = 1 + t div 5000
   \<and> rounds e (run_to 20000 (mount idle)) = 5
   \<and> timer (unmount p) = None
   \<and> issued (run_to t (unmount p)) = issued p
   \<and> rounds e (run_to 20000 (unmount (run_to 12000 (mount idle)))) = 3"
proof -
  have m: "timer (mount idle) = Some 5000" "clock (mount idle) \<le> 5000"
    and i: "issued (mount idle) = requests_at 0"
    by (simp_all add: mount_def idle_def fetch_round_def)
  have s: "map (\<lambda>k. requests_at (k * 5000)) [0 ..< Suc n] =
           requests_at 0 # map (\<lambda>k. requests_at (5000 + k * 5000)) [0 ..< n]" for n
    by (simp only: map_upt_Suc) simp
  have full: "issued (run_to t (mount idle)) =
       concat (map (\<lambda>k. requests_at (k * 5000)) [0 ..< Suc (t div 5000)])" for t
    using run_to_issued [OF m, of t]
    by (simp only: i s ticks_first_period concat.simps)
  have r: "rounds e (run_to t (mount idle)) = Suc (t div 5000)" for t
    unfolding rounds_def full by (rule round_count)
  have u: "issued (run_to t (unmount q)) = issued q" for t q
    by (simp add: run_to_no_timer unmount_def)
  have "rounds e (run_to 20000 (unmount (run_to 12000 (mount idle)))) =
        rounds e (run_to 12000 (mount idle))"
    by (simp only: rounds_def u)
  also have "\<dots> = 3" by (simp add: r)
  finally have three: "rounds e (run_to 20000 (unmount (run_to 12000 (mount idle)))) = 3" .
  have five: "rounds e (run_to 20000 (mount idle)) = 5" by (simp add: r)
  have i0: "issued (mount idle) = [(0, StatusEndpoint), (0, LogsEndpoint), (0, ServiceEndpoint)]"
    by (simp only: i requests_at_def)
  have tm: "timer (unmount p) = None" by (simp add: unmount_def)
  have rt: "rounds e (run_to t (mount idle)) = 1 + t div 5000" by (simp add: r)
  from i0 full [of t] rt five tm u [of t p] three show ?thesis by blast
qed

text \<open>The window of 20 seconds, request by request, and the teardown at 12 seconds.\<close>

theorem poller_cadence_witness:
  "issued (run_to 20000 (mount idle)) =
     [(0, StatusEndpoint), (0, LogsEndpoint), (0, ServiceEndpoint),
      (5000, StatusEndpoint), (5000, LogsEndpoint), (5000, ServiceEndpoint),
      (10000, StatusEndpoint), (10000, LogsEndpoint), (10000, ServiceEndpoint),
      (15000, StatusEndpoint), (15000, LogsEndpoint), (15000, ServiceEndpoint),
      (20000, StatusEndpoint), (20000, LogsEndpoint), (20000, ServiceEndpoint)]
   \<and> rounds StatusEndpoint (run_to 20000 (mount idle)) = 5
   \<and> rounds LogsEndpoint (run_to 20000 (mount idle)) = 5
   \<and> rounds ServiceEndpoint (run_to 20000 (mount idle)) = 5
   \<and> rounds StatusEndpoint (run_to 20000 (unmount (run_to 12000 (mount idle)))) = 3"
proof -
  note a = poller_cadence [of 20000 StatusEndpoint idle]
  note b = poller_cadence [of 20000 LogsEndpoint idle]
  note c = poller_cadence [of 20000 ServiceEndpoint idle]
  have l: "[0 ..< Suc (20000 div 5000)] = [0, 1, 2, 3, 4]"
    by (simp add: upt_rec)
  have "issued (run_to 20000 (mount idle)) =
     [(0, StatusEndpoint), (0, LogsEndpoint), (0, ServiceEndpoint),
      (5000, StatusEndpoint), (5000, LogsEndpoint), (5000, ServiceEndpoint),
      (10000, StatusEndpoint), (10000, LogsEndpoint), (10000, ServiceEndpoint),
      (15000, StatusEndpoint), (15000, LogsEndpoint), (15000, ServiceEndpoint),
      (20000, StatusEndpoint), (20000, LogsEndpoint), (20000, ServiceEndpoint)]"
    using a by (simp only: l) (simp add: requests_at_def)
  with a b c show ?thesis by blast
qed

end
